theory Spec2Isabelle
  imports Main "HOL-Library.Sublist"
begin

section \<open>Python values, exceptions and the string primitives the module uses\<close>

text \<open>
  The module \<^verbatim>\<open>git-commit.py\<close> is an Ansible module: \<^verbatim>\<open>main()\<close> reads the parameters
  the framework has validated, prepares an SSH wrapper, builds a list of labelled commands
  and runs them in order. Strings are lists of characters (code points below 256).
  An exception that the source does not catch ends the run; it is the value \<open>Raised\<close>.
\<close>

datatype exn =
    KeyError string
  | AttributeError string string
  | ValueError string
  | OSError string

datatype pyval =
    PNone
  | PBool bool
  | PInt int
  | PStr string
  | PList "pyval list"
  | PTuple "pyval list"

fun truthy :: "pyval \<Rightarrow> bool" where
  "truthy PNone = False"
| "truthy (PBool b) = b"
| "truthy (PInt i) = (i \<noteq> 0)"
| "truthy (PStr s) = (s \<noteq> [])"
| "truthy (PList xs) = (xs \<noteq> [])"
| "truthy (PTuple xs) = (xs \<noteq> [])"

fun type_name :: "pyval \<Rightarrow> string" where
  "type_name PNone = ''NoneType''"
| "type_name (PBool b) = ''bool''"
| "type_name (PInt i) = ''int''"
| "type_name (PStr s) = ''str''"
| "type_name (PList xs) = ''list''"
| "type_name (PTuple xs) = ''tuple''"

text \<open>Truth value of an optional string (\<^verbatim>\<open>None\<close> and \<^verbatim>\<open>""\<close> are false).\<close>

fun truthy_opt :: "string option \<Rightarrow> bool" where
  "truthy_opt None = False"
| "truthy_opt (Some s) = (s \<noteq> [])"

definition nl :: char where "nl = CHR 0x0A"
definition tab :: char where "tab = CHR 0x09"
definition dquote :: char where "dquote = CHR 0x22"
definition backslash :: char where "backslash = CHR 0x5C"

text \<open>
  White space as \<^verbatim>\<open>str.rstrip()\<close> and the pattern \<^verbatim>\<open>\s\<close> of \<^verbatim>\<open>re\<close> read it on
  text: tab, line feed, vertical tab, form feed, carriage return, the separators
  0x1C to 0x1F, space, and 0x85 and 0xA0.
\<close>

definition is_space :: "char \<Rightarrow> bool" where
  "is_space c = (c \<in> set [CHR 0x09, CHR 0x0A, CHR 0x0B, CHR 0x0C, CHR 0x0D,
     CHR 0x1C, CHR 0x1D, CHR 0x1E, CHR 0x1F, CHR 0x20, CHR 0x85, CHR 0xA0])"

definition rstrip :: "string \<Rightarrow> string" where
  "rstrip s = rev (dropWhile is_space (rev s))"

text \<open>
  \<open>split_first sep s\<close> cuts \<open>s\<close> at the leftmost occurrence of \<open>sep\<close>: what
  \<^verbatim>\<open>s.split(sep, 1)\<close> returns when it returns two parts, and \<open>None\<close> when \<open>sep\<close> does
  not occur (the call then returns the one-element list \<^verbatim>\<open>[s]\<close>).
\<close>

fun split_first :: "string \<Rightarrow> string \<Rightarrow> (string \<times> string) option" where
  "split_first sep [] = (if sep = [] then Some ([], []) else None)"
| "split_first sep (c # cs) =
     (if prefix sep (c # cs) then Some ([], drop (length sep) (c # cs))
      else (case split_first sep cs of
              None \<Rightarrow> None
            | Some (a, b) \<Rightarrow> Some (c # a, b)))"

text \<open>\<^verbatim>\<open>sub in s\<close> on strings.\<close>

definition contains :: "string \<Rightarrow> string \<Rightarrow> bool" where
  "contains sub s = (split_first sub s \<noteq> None)"

text \<open>\<^verbatim>\<open>s.split(sep)[0]\<close>: the text before the leftmost \<open>sep\<close>, all of \<open>s\<close> without one.\<close>

definition before_first :: "string \<Rightarrow> string \<Rightarrow> string" where
  "before_first sep s = (case split_first sep s of None \<Rightarrow> s | Some (a, b) \<Rightarrow> a)"

lemma split_first_shorter:
  "split_first sep s = Some (a, b) \<Longrightarrow> sep \<noteq> [] \<Longrightarrow> length b < length s"
proof (induction s arbitrary: a)
  case Nil
  then show ?case by simp
next
  case (Cons c cs)
  show ?case
  proof (cases "prefix sep (c # cs)")
    case True
    with Cons.prems show ?thesis by auto
  next
    case False
    with Cons.prems obtain a' where "split_first sep cs = Some (a', b)"
      by (auto split: option.splits)
    with Cons.IH Cons.prems(2) show ?thesis by fastforce
  qed
qed

text \<open>\<^verbatim>\<open>s.split(sep)\<close> for a non-empty separator.\<close>

function py_split :: "string \<Rightarrow> string \<Rightarrow> string list" where
  "py_split sep s =
     (if sep = [] then [s]
      else (case split_first sep s of
              None \<Rightarrow> [s]
            | Some (a, b) \<Rightarrow> a # py_split sep b))"
  by pat_completeness auto
termination
  by (relation "measure (\<lambda>(sep, s). length s)") (auto simp: split_first_shorter)

declare py_split.simps [simp del]

text \<open>
  The method call \<^verbatim>\<open>v.split(sep)\<close> on a Python value: only a string has the method;
  on any other value the attribute lookup raises \<^verbatim>\<open>AttributeError\<close>.
\<close>

fun py_split_method :: "pyval \<Rightarrow> string \<Rightarrow> exn + string list" where
  "py_split_method (PStr s) sep =
     (if sep = [] then Inl (ValueError ''empty separator'') else Inr (py_split sep s))"
| "py_split_method v sep = Inl (AttributeError (type_name v) ''split'')"

lemma dropWhile_rest_shorter:
  "dropWhile P s = x # r \<Longrightarrow> length (dropWhile Q r) < length s"
proof -
  assume h: "dropWhile P s = x # r"
  have "length (dropWhile Q r) \<le> length r"
    by (rule length_dropWhile_le)
  moreover have "length (dropWhile P s) \<le> length s"
    by (rule length_dropWhile_le)
  ultimately show ?thesis using h by simp
qed

text \<open>
  \<^verbatim>\<open>re.split(r'\s+', s)\<close>: the pieces of \<open>s\<close> between maximal runs of white space; white
  space at either end gives an empty first or last piece.
\<close>

function re_split :: "string \<Rightarrow> string list" where
  "re_split s =
     (case dropWhile (\<lambda>c. \<not> is_space c) s of
        [] \<Rightarrow> [s]
      | x # r \<Rightarrow> takeWhile (\<lambda>c. \<not> is_space c) s # re_split (dropWhile is_space r))"
  by pat_completeness auto
termination
  by (relation "measure length") (auto simp: dropWhile_rest_shorter)

declare re_split.simps [simp del]

text \<open>\<^verbatim>\<open>' '.join(xs)\<close>.\<close>

fun join_sp :: "string list \<Rightarrow> string" where
  "join_sp [] = []"
| "join_sp [x] = x"
| "join_sp (x # y # ys) = x @ '' '' @ join_sp (y # ys)"

text \<open>\<^verbatim>\<open>comment.replace("\"", r"\"", -1)\<close>: every double quote gets a backslash before it.\<close>

fun replace_dquote :: "string \<Rightarrow> string" where
  "replace_dquote [] = []"
| "replace_dquote (c # cs) =
     (if c = dquote then backslash # dquote # replace_dquote cs else c # replace_dquote cs)"

text \<open>\<^verbatim>\<open>os.path.join(a, b)\<close> and \<^verbatim>\<open>os.path.isabs\<close> on a POSIX host.\<close>

definition path_join :: "string \<Rightarrow> string \<Rightarrow> string" where
  "path_join a b =
     (if prefix ''/'' b then b
      else if a = [] \<or> suffix ''/'' a then a @ b
      else a @ ''/'' @ b)"

definition isabs :: "string \<Rightarrow> bool" where
  "isabs s = prefix ''/'' s"

section \<open>The host, the module state and the result\<close>

text \<open>
  What the run reads from its host is a parameter of the model: the file system tests of
  \<^verbatim>\<open>os.path\<close>, the content of a file (or the message of the \<^verbatim>\<open>IOError\<close> that reading
  raises), the directory of the module, \<^verbatim>\<open>tempfile.mkstemp\<close> (the path it creates, or the
  message of its \<^verbatim>\<open>OSError\<close>), \<^verbatim>\<open>module.get_bin_path('git', True)\<close> (the path, or the
  message it fails the run with), and the exit code, output and error text of an external
  command, which may depend on the calls made before it.
\<close>

record call =
  cmd :: string
  cwd :: "string option"
  env_update :: "(string \<times> string) list"

record host =
  get_bin_path :: "string + string"
  isfile :: "string \<Rightarrow> bool"
  isdir :: "string \<Rightarrow> bool"
  read_file :: "string \<Rightarrow> string + string"
  module_dir :: string
  access_rwx :: "string \<Rightarrow> bool"
  mkstemp :: "string option \<Rightarrow> string + string"
  proc :: "call list \<Rightarrow> string \<Rightarrow> int \<times> string \<times> string"

text \<open>
  The dictionary \<^verbatim>\<open>changes\<close> of \<^verbatim>\<open>_get_diff_index\<close> has the three keys \<^verbatim>\<open>added\<close>,
  \<^verbatim>\<open>modified\<close> and \<^verbatim>\<open>deleted\<close>. The dictionary \<^verbatim>\<open>result\<close> of \<^verbatim>\<open>main\<close> is empty
  (\<open>None\<close>) or holds \<^verbatim>\<open>local_path\<close>, \<^verbatim>\<open>changed\<close> and \<^verbatim>\<open>files\<close>, where \<^verbatim>\<open>files\<close> is the
  empty dictionary (\<open>None\<close>) or \<^verbatim>\<open>changes\<close>.
\<close>

record changes =
  added :: "string list"
  modified :: "string list"
  deleted :: "string list"

record run_result =
  r_local_path :: string
  r_changed :: bool
  r_files :: "changes option"

text \<open>
  The state a run changes: the process environment \<^verbatim>\<open>os.environ\<close>, the wrapper scripts
  written (each with the template of \<^verbatim>\<open>write_ssh_wrapper\<close> and the owner's execute bit),
  the files registered with \<^verbatim>\<open>module.add_cleanup_file\<close>, the attribute
  \<^verbatim>\<open>module.run_command_environ_update\<close>, the external commands run so far, and the
  dictionary \<^verbatim>\<open>result\<close>.
\<close>

record state =
  environ :: "string \<rightharpoonup> string"
  wrapper_files :: "string list"
  cleanup_files :: "string list"
  run_command_environ_update :: "(string \<times> string) list"
  calls :: "call list"
  result :: "run_result option"

text \<open>
  What the constructor \<^verbatim>\<open>AnsibleModule(argument_spec=..., ...)\<close> fails a run for, in the
  order of its checks: an entry of the declaration that is both required and given a
  default (\<^verbatim>\<open>internal error: required and default are mutually exclusive for <key>\<close>),
  arguments under names the declaration does not have, arguments that exclude each other,
  a required argument that is missing, a value that is none of the declared choices, and
  a \<^verbatim>\<open>required_if\<close> rule with missing arguments.
\<close>

datatype init_error =
    RequiredAndDefault string
  | Unsupported "string list"
  | MutuallyExclusive "string list"
  | MissingRequired "string list"
  | BadChoice string string
  | RequiredIf string "string list"

text \<open>
  How a run ends: \<^verbatim>\<open>module.exit_json(**result)\<close>, \<^verbatim>\<open>module.fail_json(msg=..., details=...)\<close>,
  the \<^verbatim>\<open>fail_json\<close> of the constructor, or an exception nobody catches.
\<close>

datatype outcome =
    ExitJson "run_result option"
  | FailJson string "string option"
  | InitFailed init_error
  | Raised exn

text \<open>
  What one command of the pipeline does: it returns the triple \<^verbatim>\<open>(rc, out, err)\<close>, ends the
  run through \<^verbatim>\<open>exit_json\<close>, or raises.
\<close>

datatype step_result =
    Returned int string string
  | Exits "run_result option"
  | Raises exn

type_synonym command = "pyval list \<Rightarrow> state \<Rightarrow> step_result \<times> state"

text \<open>
  \<^verbatim>\<open>module.run_command(cmd, cwd=...)\<close>: the call is recorded with the working directory
  and the environment update in force, and the host gives its result.
\<close>

definition run_command ::
  "host \<Rightarrow> string \<Rightarrow> string option \<Rightarrow> state \<Rightarrow> (int \<times> string \<times> string) \<times> state" where
  "run_command h c d s =
     (proc h (calls s) c,
      s\<lparr>calls := calls s @ [\<lparr>cmd = c, cwd = d, env_update = run_command_environ_update s\<rparr>]\<rparr>)"

section \<open>The parameters\<close>

text \<open>
  \<^verbatim>\<open>module.params\<close> holds one entry for each key of the \<^verbatim>\<open>argument_spec\<close> of \<^verbatim>\<open>main\<close>, of the
  declared type: a path or a plain string (or \<^verbatim>\<open>None\<close> where nothing requires it), a
  bool, a list.
\<close>

record params =
  local_path :: string
  user :: "string option"
  token :: "string option"
  comment :: "string option"
  add :: "string list"
  branch :: string
  remote :: string
  push :: bool
  set_upstream :: bool
  commit :: bool
  push_option :: "string option"
  mode :: string
  key_file :: "string option"
  ssh_opts :: "string option"
  executable :: "string option"

fun opt_val :: "string option \<Rightarrow> pyval" where
  "opt_val None = PNone"
| "opt_val (Some s) = PStr s"

text \<open>
  The subscript \<^verbatim>\<open>module.params[k]\<close>: the entry of a declared key, \<^verbatim>\<open>KeyError\<close> for any
  other key.
\<close>

definition params_getitem :: "params \<Rightarrow> string \<Rightarrow> exn + pyval" where
  "params_getitem p k =
     (if k = ''local_path'' then Inr (PStr (local_path p))
      else if k = ''user'' then Inr (opt_val (user p))
      else if k = ''token'' then Inr (opt_val (token p))
      else if k = ''comment'' then Inr (opt_val (comment p))
      else if k = ''add'' then Inr (PList (map PStr (add p)))
      else if k = ''branch'' then Inr (PStr (branch p))
      else if k = ''remote'' then Inr (PStr (remote p))
      else if k = ''push'' then Inr (PBool (push p))
      else if k = ''set_upstream'' then Inr (PBool (set_upstream p))
      else if k = ''commit'' then Inr (PBool (commit p))
      else if k = ''push_option'' then Inr (opt_val (push_option p))
      else if k = ''mode'' then Inr (PStr (mode p))
      else if k = ''key_file'' then Inr (opt_val (key_file p))
      else if k = ''ssh_opts'' then Inr (opt_val (ssh_opts p))
      else if k = ''executable'' then Inr (opt_val (executable p))
      else Inl (KeyError k))"

section \<open>The constructor \<^verbatim>\<open>AnsibleModule(...)\<close> of \<^verbatim>\<open>main\<close>\<close>

text \<open>
  One entry of the \<^verbatim>\<open>argument_spec\<close>: its type (\<^verbatim>\<open>str\<close> when none is written), whether it
  is required, its default (\<open>PNone\<close> when none is written) and its choices (empty when none
  are written).
\<close>

record option_spec =
  o_type :: string
  o_required :: bool
  o_default :: pyval
  o_choices :: "string list"

definition argument_spec :: "(string \<times> option_spec) list" where
  "argument_spec =
     [(''local_path'', \<lparr>o_type = ''path'', o_required = True, o_default = PNone, o_choices = []\<rparr>),
      (''user'', \<lparr>o_type = ''str'', o_required = False, o_default = PNone, o_choices = []\<rparr>),
      (''token'', \<lparr>o_type = ''str'', o_required = False, o_default = PNone, o_choices = []\<rparr>),
      (''comment'', \<lparr>o_type = ''str'', o_required = False, o_default = PNone, o_choices = []\<rparr>),
      (''add'', \<lparr>o_type = ''list'', o_required = False, o_default = PList [PStr ''.''],
                 o_choices = []\<rparr>),
      (''branch'', \<lparr>o_type = ''str'', o_required = True, o_default = PStr ''master'',
                    o_choices = []\<rparr>),
      (''remote'', \<lparr>o_type = ''str'', o_required = True, o_default = PStr ''origin'',
                    o_choices = []\<rparr>),
      (''push'', \<lparr>o_type = ''bool'', o_required = False, o_default = PBool True, o_choices = []\<rparr>),
      (''set_upstream'', \<lparr>o_type = ''bool'', o_required = False, o_default = PBool False,
                          o_choices = []\<rparr>),
      (''commit'', \<lparr>o_type = ''bool'', o_required = False, o_default = PBool True,
                    o_choices = []\<rparr>),
      (''push_option'', \<lparr>o_type = ''str'', o_required = False, o_default = PNone,
                         o_choices = []\<rparr>),
      (''mode'', \<lparr>o_type = ''str'', o_required = True, o_default = PStr ''ssh'',
                  o_choices = [''ssh'', ''https'']\<rparr>),
      (''key_file'', \<lparr>o_type = ''path'', o_required = False, o_default = PNone, o_choices = []\<rparr>),
      (''ssh_opts'', \<lparr>o_type = ''str'', o_required = False, o_default = PNone, o_choices = []\<rparr>),
      (''executable'', \<lparr>o_type = ''path'', o_required = False, o_default = PNone,
                        o_choices = []\<rparr>)]"

text \<open>
  The first check of the constructor goes through the declaration in its order and fails
  the run at the first entry that has \<^verbatim>\<open>required=True\<close> and a default that is not \<^verbatim>\<open>None\<close>.
\<close>

fun required_and_default :: "(string \<times> option_spec) list \<Rightarrow> string option" where
  "required_and_default [] = None"
| "required_and_default ((k, v) # rest) =
     (if o_default v \<noteq> PNone \<and> o_required v then Some k else required_and_default rest)"

text \<open>
  The arguments of a task: for each declared name the value given under it, of the
  declared type, or \<open>None\<close> when the task gives none; and what the task gives under other
  names.
\<close>

record task_args =
  t_local_path :: "string option"
  t_user :: "string option"
  t_token :: "string option"
  t_comment :: "string option"
  t_add :: "string list option"
  t_branch :: "string option"
  t_remote :: "string option"
  t_push :: "bool option"
  t_set_upstream :: "bool option"
  t_commit :: "bool option"
  t_push_option :: "string option"
  t_mode :: "string option"
  t_key_file :: "string option"
  t_ssh_opts :: "string option"
  t_executable :: "string option"
  t_other :: "(string \<times> pyval) list"

fun or_default :: "'a option \<Rightarrow> 'a \<Rightarrow> 'a" where
  "or_default None d = d"
| "or_default (Some x) d = x"

text \<open>
  The checks after the first one, as the call of lines 220 to 245 declares them: names
  outside the declaration are unsupported; \<^verbatim>\<open>mutually_exclusive=[("ssh", "https")]\<close> names
  two arguments that the declaration does not have; \<^verbatim>\<open>local_path\<close> is required and has no
  default; \<^verbatim>\<open>mode\<close> is one of its choices; and the three rules of \<^verbatim>\<open>required_if\<close>, of which
  the one on \<^verbatim>\<open>push\<close> asks for \<^verbatim>\<open>branch\<close> and \<^verbatim>\<open>remote\<close>, which the defaults always give, and
  the one on \<^verbatim>\<open>commit\<close> for \<^verbatim>\<open>add\<close>, likewise. The result is \<^verbatim>\<open>module.params\<close>, with the
  defaults filled in.
\<close>

definition validate :: "task_args \<Rightarrow> init_error + params" where
  "validate t =
     (if filter (\<lambda>k. k \<notin> set (map fst argument_spec)) (map fst (t_other t)) \<noteq> [] then
        Inl (Unsupported (filter (\<lambda>k. k \<notin> set (map fst argument_spec)) (map fst (t_other t))))
      else if ''ssh'' \<in> set (map fst (t_other t)) \<and> ''https'' \<in> set (map fst (t_other t)) then
        Inl (MutuallyExclusive [''ssh'', ''https''])
      else
        (case t_local_path t of
           None \<Rightarrow> Inl (MissingRequired [''local_path''])
         | Some lp \<Rightarrow>
             (let p = \<lparr>local_path = lp, user = t_user t, token = t_token t,
                       comment = t_comment t, add = or_default (t_add t) [''.''],
                       branch = or_default (t_branch t) ''master'',
                       remote = or_default (t_remote t) ''origin'',
                       push = or_default (t_push t) True,
                       set_upstream = or_default (t_set_upstream t) False,
                       commit = or_default (t_commit t) True,
                       push_option = t_push_option t,
                       mode = or_default (t_mode t) ''ssh'',
                       key_file = t_key_file t, ssh_opts = t_ssh_opts t,
                       executable = t_executable t\<rparr>
              in if mode p \<notin> set [''ssh'', ''https''] then Inl (BadChoice ''mode'' (mode p))
                 else if commit p \<and> comment p = None then Inl (RequiredIf ''commit'' [''comment''])
                 else if mode p = ''https'' \<and> (user p = None \<or> token p = None) then
                   Inl (RequiredIf ''mode''
                          ((if user p = None then [''user''] else [])
                           @ (if token p = None then [''token''] else [])))
                 else Inr p)))"

definition ansible_module :: "task_args \<Rightarrow> init_error + params" where
  "ansible_module t =
     (case required_and_default argument_spec of
        Some k \<Rightarrow> Inl (RequiredAndDefault k)
      | None \<Rightarrow> validate t)"

section \<open>Repository Locator: \<^verbatim>\<open>get_repo_path\<close>\<close>

definition get_repo_path :: "host \<Rightarrow> string \<Rightarrow> exn + string" where
  "get_repo_path h lp =
     (let repo_path = path_join lp ''.git'' in
      if isfile h repo_path then
        (case read_file h repo_path of
           Inl msg \<Rightarrow> Inl (OSError msg)
         | Inr data \<Rightarrow>
            (case split_first ''gitdir: '' (rstrip data) of
               None \<Rightarrow> Inl (ValueError ''not enough values to unpack (expected 2, got 1)'')
             | Some (ref_prefix, gitdir) \<Rightarrow>
                 if ref_prefix \<noteq> [] then
                   Inl (ValueError ''.git file has invalid git dir reference format'')
                 else
                   (let repo_path2 =
                          (if isabs gitdir then gitdir
                           else path_join (before_first ''.git'' repo_path) gitdir)
                    in if \<not> isdir h repo_path2 then
                         Inl (ValueError (repo_path2 @ '' is not a directory''))
                       else Inr repo_path2)))
      else Inr repo_path)"

text \<open>\<^verbatim>\<open>to_text(err)\<close> of a caught exception: its message.\<close>

fun exn_text :: "exn \<Rightarrow> string" where
  "exn_text (KeyError k) = k"
| "exn_text (AttributeError t a) = t @ '' object has no attribute '' @ a"
| "exn_text (ValueError m) = m"
| "exn_text (OSError m) = m"

section \<open>Transport Configurator: \<^verbatim>\<open>write_ssh_wrapper\<close> and \<^verbatim>\<open>set_git_ssh\<close>\<close>

text \<open>
  The path of the wrapper: \<^verbatim>\<open>mkstemp\<close> with the module directory as prefix when that
  directory is readable, writable and searchable; when it is not, or when that
  \<^verbatim>\<open>mkstemp\<close> raises, \<^verbatim>\<open>mkstemp()\<close> in the default directory, whose error nobody
  catches.
\<close>

definition wrapper_path :: "host \<Rightarrow> string + string" where
  "wrapper_path h =
     (if access_rwx h (module_dir h) then
        (case mkstemp h (Some (module_dir h @ ''/'')) of
           Inr wp \<Rightarrow> Inr wp
         | Inl msg \<Rightarrow> mkstemp h None)
      else mkstemp h None)"

definition write_ssh_wrapper :: "host \<Rightarrow> state \<Rightarrow> exn + (string \<times> state)" where
  "write_ssh_wrapper h s =
     (case wrapper_path h of
        Inl msg \<Rightarrow> Inl (OSError msg)
      | Inr wp \<Rightarrow> Inr (wp, s\<lparr>wrapper_files := wrapper_files s @ [wp]\<rparr>))"

text \<open>
  \<^verbatim>\<open>if os.environ.get(k): del os.environ[k]\<close>: a variable that is set to a non-empty value
  is removed.
\<close>

definition env_clear :: "string \<Rightarrow> (string \<rightharpoonup> string) \<Rightarrow> (string \<rightharpoonup> string)" where
  "env_clear k env = (if truthy_opt (env k) then env(k := None) else env)"

definition set_git_ssh :: "string \<Rightarrow> string option \<Rightarrow> string option \<Rightarrow> state \<Rightarrow> state" where
  "set_git_ssh ssh_wrapper kf so s =
     (let e1 = (env_clear ''GIT_SSH'' (environ s))(''GIT_SSH'' \<mapsto> ssh_wrapper);
          e2 = env_clear ''GIT_KEY'' e1;
          e3 = (case kf of
                  Some k \<Rightarrow> if k \<noteq> [] then e2(''GIT_KEY'' \<mapsto> k) else e2
                | None \<Rightarrow> e2);
          e4 = env_clear ''GIT_SSH_OPTS'' e3;
          e5 = (case so of
                  Some opts \<Rightarrow> if opts \<noteq> [] then e4(''GIT_SSH_OPTS'' \<mapsto> opts) else e4
                | None \<Rightarrow> e4)
      in s\<lparr>environ := e5\<rparr>)"

definition add_cleanup_file :: "string \<Rightarrow> state \<Rightarrow> state" where
  "add_cleanup_file path s = s\<lparr>cleanup_files := cleanup_files s @ [path]\<rparr>"

section \<open>\<^verbatim>\<open>git_version\<close>\<close>

text \<open>
  \<^verbatim>\<open>re.search('git version (.*)$', out)\<close>: the leftmost \<^verbatim>\<open>git version \<close> that is followed
  by text without a line feed up to the end of \<open>out\<close>, or up to one last line feed; the
  group is that text.
\<close>

fun version_search :: "string \<Rightarrow> string option" where
  "version_search [] = None"
| "version_search (c # cs) =
     (if prefix ''git version '' (c # cs)
         \<and> dropWhile (\<lambda>x. x \<noteq> nl) (drop 12 (c # cs)) \<in> set [[], [nl]]
      then Some (takeWhile (\<lambda>x. x \<noteq> nl) (drop 12 (c # cs)))
      else version_search cs)"

definition git_version :: "host \<Rightarrow> string \<Rightarrow> state \<Rightarrow> string option \<times> state" where
  "git_version h git_path s =
     (case run_command h (git_path @ '' --version'') None s of
        ((rc, out, err), s') \<Rightarrow> (if rc \<noteq> 0 then None else version_search out, s'))"

section \<open>Change-Set Parser: \<^verbatim>\<open>_get_diff_index\<close>\<close>

text \<open>
  The unpacking \<^verbatim>\<open>[stage_action, filename] = ...\<close> needs exactly two values.
\<close>

fun unpack2 :: "string list \<Rightarrow> exn + (string \<times> string)" where
  "unpack2 [] = Inl (ValueError ''not enough values to unpack (expected 2, got 0)'')"
| "unpack2 [a] = Inl (ValueError ''not enough values to unpack (expected 2, got 1)'')"
| "unpack2 [a, b] = Inr (a, b)"
| "unpack2 (a # b # c # r) = Inl (ValueError ''too many values to unpack (expected 2)'')"

text \<open>
  The loop \<^verbatim>\<open>for staged_file in staged_files\<close> over the dictionary \<^verbatim>\<open>changes\<close>: the
  first piece of the line picks the key, any other first piece skips the line
  (\<^verbatim>\<open>continue\<close>), and a line that is not two pieces raises.
\<close>

fun classify :: "string list \<Rightarrow> changes \<Rightarrow> exn + changes" where
  "classify [] ch = Inr ch"
| "classify (staged_file # rest) ch =
     (case unpack2 (re_split staged_file) of
        Inl e \<Rightarrow> Inl e
      | Inr (stage_action, filename) \<Rightarrow>
          if stage_action = ''A'' then classify rest (ch\<lparr>added := added ch @ [filename]\<rparr>)
          else if stage_action = ''D'' then classify rest (ch\<lparr>deleted := deleted ch @ [filename]\<rparr>)
          else if stage_action = ''M'' then classify rest (ch\<lparr>modified := modified ch @ [filename]\<rparr>)
          else classify rest ch)"

text \<open>
  \<^verbatim>\<open>_get_diff_index(*args)\<close> is called with the triple of the step before it, so \<open>args\<close> is
  a tuple and so is \<^verbatim>\<open>args[:-1]\<close>; the source calls \<^verbatim>\<open>.split('\n')\<close> on that slice.
\<close>

definition get_diff_index :: "string \<Rightarrow> command" where
  "get_diff_index lp args s =
     (let s1 = s\<lparr>result := Some \<lparr>r_local_path = lp, r_changed = False, r_files = None\<rparr>\<rparr> in
      case py_split_method (PTuple (butlast args)) [nl] of
        Inl e \<Rightarrow> (Raises e, s1)
      | Inr staged_files \<Rightarrow>
          if length staged_files \<noteq> 0 then
            (case classify staged_files \<lparr>added = [], modified = [], deleted = []\<rparr> of
               Inl e \<Rightarrow> (Raises e, s1)
             | Inr ch \<Rightarrow>
                 (Returned 0 [] [],
                  s1\<lparr>result := Some \<lparr>r_local_path = lp, r_changed = True, r_files = Some ch\<rparr>\<rparr>))
          else (Exits (result s1), s1))"

section \<open>Command Pipeline\<close>

text \<open>A command that is one call of \<^verbatim>\<open>module.run_command(..., cwd=local_path)\<close>.\<close>

definition run_step :: "host \<Rightarrow> string \<Rightarrow> string \<Rightarrow> command" where
  "run_step h c lp args s =
     (case run_command h c (Some lp) s of
        ((rc, out, err), s') \<Rightarrow> (Returned rc out err, s'))"

definition add_cmd :: "string \<Rightarrow> string \<Rightarrow> string list \<Rightarrow> string" where
  "add_cmd git_path repo_path paths = git_path @ '' -C '' @ repo_path @ '' add '' @ join_sp paths"

definition diff_index_cmd :: "string \<Rightarrow> string \<Rightarrow> string" where
  "diff_index_cmd git_path repo_path =
     git_path @ '' -C '' @ repo_path @ '' diff-index --cached --name-status HEAD''"

definition commit_cmd :: "string \<Rightarrow> string \<Rightarrow> string \<Rightarrow> string" where
  "commit_cmd git_path repo_path c =
     git_path @ '' -C '' @ repo_path @ '' commit -m '' @ [dquote] @ replace_dquote c @ [dquote]"

definition push_cmd :: "string \<Rightarrow> string \<Rightarrow> params \<Rightarrow> string" where
  "push_cmd git_path repo_path p =
     git_path @ '' -C '' @ repo_path @ '' push ''
       @ (case push_option p of
            Some po \<Rightarrow> if po \<noteq> [] then ''--push-option='' @ po else []
          | None \<Rightarrow> [])
       @ '' '' @ remote p @ '' ''
       @ (if set_upstream p then ''--set-upstream '' else [])
       @ '' '' @ branch p"

text \<open>The list \<^verbatim>\<open>commands\<close> of labelled commands that \<^verbatim>\<open>main\<close> builds.\<close>

definition commands :: "host \<Rightarrow> params \<Rightarrow> string \<Rightarrow> string \<Rightarrow> (string \<times> command) list" where
  "commands h p git_path repo_path =
     (if add p \<noteq> [] then
        [(''git_add'', run_step h (add_cmd git_path repo_path (add p)) (local_path p)),
         (''git_files_added'', run_step h (diff_index_cmd git_path repo_path) (local_path p)),
         (''git_staged_files'', get_diff_index (local_path p))]
      else [])
     @ (if commit p then
          [(''git_commit'',
            (case comment p of
               Some c \<Rightarrow> run_step h (commit_cmd git_path repo_path c) (local_path p)
             | None \<Rightarrow> (\<lambda>args s. (Raises (AttributeError ''NoneType'' ''replace''), s))))]
        else [])
     @ (if push p then
          [(''git_push'', run_step h (push_cmd git_path repo_path p) (local_path p))]
        else [])"

text \<open>
  The loop over \<^verbatim>\<open>commands\<close>: each command gets the triple of the one before it, a
  non-zero exit code fails the run with the label, the output and the error text, and
  the end of the list exits with \<^verbatim>\<open>result\<close>.
\<close>

fun run_commands :: "(string \<times> command) list \<Rightarrow> pyval list \<Rightarrow> state \<Rightarrow> outcome \<times> state" where
  "run_commands [] prev_results s = (ExitJson (result s), s)"
| "run_commands ((label, command) # rest) prev_results s =
     (case command prev_results s of
        (Returned rc out err, s') \<Rightarrow>
          if rc \<noteq> 0 then
            (FailJson (''Failed to '' @ label @ '': '' @ out @ '' '' @ err) None, s')
          else run_commands rest [PInt rc, PStr out, PStr err] s'
      | (Exits r, s') \<Rightarrow> (ExitJson r, s')
      | (Raises e, s') \<Rightarrow> (Raised e, s'))"

section \<open>\<^verbatim>\<open>main\<close>\<close>

definition hostkey_flag :: string where
  "hostkey_flag = ''-o StrictHostKeyChecking=no''"

definition c_locale :: "(string \<times> string) list" where
  "c_locale = [(''LANG'', ''C''), (''LC_ALL'', ''C''), (''LC_MESSAGES'', ''C''), (''LC_CTYPE'', ''C'')]"

text \<open>
  The block under \<^verbatim>\<open>if module.params['accept_hostkey']:\<close>, from the value \<open>v\<close> of that
  subscript: the new \<^verbatim>\<open>ssh_opts\<close>, and the state, whose \<^verbatim>\<open>run_command_environ_update\<close> is
  assigned in the \<^verbatim>\<open>else\<close> branch of the inner test.
\<close>

definition accept_hostkey_block :: "pyval \<Rightarrow> string option \<Rightarrow> state \<Rightarrow> string option \<times> state" where
  "accept_hostkey_block v so s =
     (if truthy v then
        (case so of
           Some opts \<Rightarrow>
             (if \<not> contains hostkey_flag opts then Some (opts @ '' '' @ hostkey_flag)
              else Some opts, s)
         | None \<Rightarrow> (Some hostkey_flag, s\<lparr>run_command_environ_update := c_locale\<rparr>))
      else (so, s))"

text \<open>
  \<^verbatim>\<open>main\<close> from \<^verbatim>\<open>result = {}\<close> on, given the executable and the value \<open>v\<close> that the subscript
  \<^verbatim>\<open>module.params['accept_hostkey']\<close> gave.
\<close>

definition main_body :: "host \<Rightarrow> params \<Rightarrow> string \<Rightarrow> pyval \<Rightarrow> state \<Rightarrow> outcome \<times> state" where
  "main_body h p git_path v s =
     (case accept_hostkey_block v (ssh_opts p) (s\<lparr>result := None\<rparr>) of
        (so, s1) \<Rightarrow>
          (case get_repo_path h (local_path p) of
             Inl err \<Rightarrow>
               (FailJson
                  (''Current repo does not have a valid reference to a ''
                     @ ''separate Git dir or it refers to the invalid path'')
                  (Some (exn_text err)), s1)
           | Inr repo_path \<Rightarrow>
               (case write_ssh_wrapper h s1 of
                  Inl e \<Rightarrow> (Raised e, s1)
                | Inr (ssh_wrapper, s2) \<Rightarrow>
                    (case git_version h git_path
                            (add_cleanup_file ssh_wrapper
                               (set_git_ssh ssh_wrapper (key_file p) so s2)) of
                       (git_version_used, s3) \<Rightarrow>
                         run_commands (commands h p git_path repo_path) [] s3))))"

text \<open>
  \<^verbatim>\<open>main\<close> from line 247 on, given \<^verbatim>\<open>module.params\<close>: the executable
  (\<^verbatim>\<open>module.params['executable'] or module.get_bin_path('git', True)\<close>), the test of the
  comment, the subscript \<^verbatim>\<open>module.params['accept_hostkey']\<close>, and the rest.
\<close>

definition git_path_of :: "host \<Rightarrow> params \<Rightarrow> string + string" where
  "git_path_of h p = (if truthy_opt (executable p) then
                        (case executable p of Some e \<Rightarrow> Inr e | None \<Rightarrow> get_bin_path h)
                      else get_bin_path h)"

definition main_from_params :: "host \<Rightarrow> params \<Rightarrow> state \<Rightarrow> outcome \<times> state" where
  "main_from_params h p s =
     (case git_path_of h p of
        Inl msg \<Rightarrow> (FailJson msg None, s)
      | Inr git_path \<Rightarrow>
          if commit p \<and> \<not> truthy_opt (comment p) then
            (FailJson ''Comment must be provided in order commit changes.'' None, s)
          else
            (case params_getitem p ''accept_hostkey'' of
               Inl e \<Rightarrow> (Raised e, s)
             | Inr v \<Rightarrow> main_body h p git_path v s))"

text \<open>\<^verbatim>\<open>main\<close>, on the arguments of the task: the constructor, then the rest.\<close>

definition main :: "host \<Rightarrow> task_args \<Rightarrow> state \<Rightarrow> outcome \<times> state" where
  "main h t s =
     (case ansible_module t of
        Inl e \<Rightarrow> (InitFailed e, s)
      | Inr p \<Rightarrow> main_from_params h p s)"

section \<open>Notions used to state the properties\<close>

text \<open>
  Running a list of commands that all return exit code 0: the triple of the last one and
  the state after it; \<open>None\<close> when one of them returns another code, exits or raises.
\<close>

fun run_prefix :: "(string \<times> command) list \<Rightarrow> pyval list \<Rightarrow> state \<Rightarrow> (pyval list \<times> state) option" where
  "run_prefix [] prev s = Some (prev, s)"
| "run_prefix ((label, command) # rest) prev s =
     (case command prev s of
        (Returned rc out err, s') \<Rightarrow>
          if rc = 0 then run_prefix rest [PInt rc, PStr out, PStr err] s' else None
      | (Exits r, s') \<Rightarrow> None
      | (Raises e, s') \<Rightarrow> None)"


text \<open>The part of the state that the Transport Configurator and the block before it set.\<close>

definition transport_of ::
  "state \<Rightarrow> (string \<rightharpoonup> string) \<times> string list \<times> string list \<times> (string \<times> string) list" where
  "transport_of s = (environ s, wrapper_files s, cleanup_files s, run_command_environ_update s)"

definition keeps_transport :: "command \<Rightarrow> bool" where
  "keeps_transport c = (\<forall>args s. transport_of (snd (c args s)) = transport_of s)"

text \<open>
  The reader of a double-quoted word, as \<^verbatim>\<open>shlex.split\<close> (which \<^verbatim>\<open>run_command\<close> applies to
  a command given as one string) and a POSIX shell do it for the two characters at stake:
  the text after the opening quote is read up to the first double quote that no backslash
  protects; a backslash before a double quote or a backslash is dropped and the character
  after it kept; any other backslash stays. The result is the word and the text after the
  closing quote, or \<open>None\<close> when the text ends before the quote is closed.
\<close>

fun read_dquoted :: "string \<Rightarrow> (string \<times> string) option" where
  "read_dquoted [] = None"
| "read_dquoted [c] = (if c = dquote then Some ([], []) else None)"
| "read_dquoted (c # d # r) =
     (if c = dquote then Some ([], d # r)
      else if c = backslash \<and> (d = dquote \<or> d = backslash) then
        (case read_dquoted r of None \<Rightarrow> None | Some (w, t) \<Rightarrow> Some (d # w, t))
      else
        (case read_dquoted (d # r) of None \<Rightarrow> None | Some (w, t) \<Rightarrow> Some (c # w, t)))"

section \<open>Concrete hosts, parameters and states\<close>

text \<open>The state before a run: nothing in the environment, no call made.\<close>

definition state0 :: state where
  "state0 = \<lparr>environ = Map.empty, wrapper_files = [], cleanup_files = [],
     run_command_environ_update = [], calls = [], result = None\<rparr>"

text \<open>
  The arguments of a task that names the working tree and a commit message, and
  variations: one file to stage; \<^verbatim>\<open>accept_hostkey\<close> with \<^verbatim>\<open>ssh_opts\<close>.
\<close>

definition args0 :: task_args where
  "args0 = \<lparr>t_local_path = Some ''/repo'', t_user = None, t_token = None,
     t_comment = Some ''msg'', t_add = None, t_branch = None, t_remote = None, t_push = None,
     t_set_upstream = None, t_commit = None, t_push_option = None, t_mode = None,
     t_key_file = None, t_ssh_opts = None, t_executable = None, t_other = []\<rparr>"

definition args_a_txt :: task_args where
  "args_a_txt = args0\<lparr>t_add := Some [''a.txt'']\<rparr>"

definition args_hostkey :: task_args where
  "args_hostkey = args0\<lparr>t_ssh_opts := Some ''-o Foo=bar'',
     t_other := [(''accept_hostkey'', PBool True)]\<rparr>"

text \<open>
  \<^verbatim>\<open>module.params\<close> with the defaults of the \<^verbatim>\<open>argument_spec\<close> and a commit message, and
  variations.
\<close>

definition params0 :: params where
  "params0 = \<lparr>local_path = ''/repo'', user = None, token = None, comment = Some ''msg'',
     add = [''.''], branch = ''master'', remote = ''origin'', push = True, set_upstream = False,
     commit = True, push_option = None, mode = ''ssh'', key_file = None, ssh_opts = None,
     executable = None\<rparr>"

definition params_a_txt :: params where
  "params_a_txt = params0\<lparr>add := [''a.txt'']\<rparr>"

definition params_no_add :: params where
  "params_no_add = params0\<lparr>add := []\<rparr>"

definition params_https :: params where
  "params_https = params0\<lparr>mode := ''https'', user := Some ''alice'', token := Some ''t0k3n''\<rparr>"

definition params_foo_bar :: params where
  "params_foo_bar = params0\<lparr>ssh_opts := Some ''-o Foo=bar''\<rparr>"

definition params_flag_twice :: params where
  "params_flag_twice = params0\<lparr>ssh_opts := Some (hostkey_flag @ '' '' @ hostkey_flag)\<rparr>"

definition params_https_key :: params where
  "params_https_key = params_https\<lparr>key_file := Some ''/home/alice/.ssh/id'',
     ssh_opts := Some ''-o Foo=bar''\<rparr>"

text \<open>
  A host where \<^verbatim>\<open>/repo/.git\<close> is a directory, the module directory is writable and every
  external command succeeds and prints nothing (so the staged diff is empty).
\<close>

definition host_quiet :: host where
  "host_quiet = \<lparr>get_bin_path = Inr ''/usr/bin/git'', isfile = (\<lambda>f. False), isdir = (\<lambda>d. True),
     read_file = (\<lambda>f. Inl ''No such file or directory''), module_dir = ''/m'',
     access_rwx = (\<lambda>d. True), mkstemp = (\<lambda>pre. Inr ''/m/tmpw''),
     proc = (\<lambda>hist c. (0, [], []))\<rparr>"

text \<open>The same host, where \<^verbatim>\<open>git diff-index\<close> prints the one line \<^verbatim>\<open>M<tab>a.txt\<close>.\<close>

definition host_modified :: host where
  "host_modified = host_quiet\<lparr>proc :=
     (\<lambda>hist c. if c = diff_index_cmd ''/usr/bin/git'' ''/repo/.git''
                then (0, ''M'' @ [tab] @ ''a.txt'' @ [nl], []) else (0, [], []))\<rparr>"

text \<open>The same host, where \<^verbatim>\<open>git push\<close> fails.\<close>

definition host_pushfail :: host where
  "host_pushfail = host_quiet\<lparr>proc :=
     (\<lambda>hist c. if c = push_cmd ''/usr/bin/git'' ''/repo/.git'' params_no_add
                then (1, ''rejected'', ''remote: denied'') else (0, [], []))\<rparr>"

text \<open>
  A host where \<^verbatim>\<open>/srv/site.git/wt/.git\<close> is a file that points to \<^verbatim>\<open>../other/.git\<close>, and
  \<^verbatim>\<open>/srv/site.git/other/.git\<close> is a directory (reached as \<^verbatim>\<open>/srv/site.git/wt/../other/.git\<close>).
\<close>

definition host_gitlink :: host where
  "host_gitlink = host_quiet\<lparr>
     isfile := (\<lambda>f. f = ''/srv/site.git/wt/.git''),
     isdir := (\<lambda>d. d = ''/srv/site.git/wt/../other/.git''),
     read_file := (\<lambda>f. if f = ''/srv/site.git/wt/.git''
                        then Inr (''gitdir: ../other/.git'' @ [nl])
                        else Inl ''No such file or directory'')\<rparr>"

lemmas fixture_defs =
  state0_def host_quiet_def host_modified_def host_pushfail_def host_gitlink_def params0_def
  params_a_txt_def params_no_add_def params_https_def params_foo_bar_def
  params_flag_twice_def params_https_key_def args0_def args_a_txt_def args_hostkey_def

lemmas run_defs =
  main_body_def accept_hostkey_block_def get_repo_path_def path_join_def
  write_ssh_wrapper_def wrapper_path_def git_version_def run_command_def commands_def
  run_step_def get_diff_index_def set_git_ssh_def add_cleanup_file_def env_clear_def
  add_cmd_def diff_index_cmd_def commit_cmd_def push_cmd_def suffix_to_prefix

section \<open>Facts about the string primitives\<close>

lemma prefix_no_sep:
  "prefix g (u @ x # w) \<Longrightarrow> x \<notin> set g \<Longrightarrow> prefix g u"
proof (induction g arbitrary: u)
  case Nil
  show ?case by simp
next
  case (Cons a g)
  show ?case
  proof (cases u)
    case Nil
    with Cons.prems show ?thesis by simp
  next
    case (Cons b u')
    with Cons.prems have ab: "a = b" and p: "prefix g (u' @ x # w)" and x: "x \<notin> set g"
      by simp_all
    from Cons.IH [OF p x] ab show ?thesis
      by (simp add: Cons)
  qed
qed

lemma contains_Cons:
  "contains sub (c # cs) = (prefix sub (c # cs) \<or> contains sub cs)"
  by (simp add: contains_def split: option.splits)

text \<open>\<open>contains\<close> is the substring test.\<close>

lemma contains_sublist: "sub \<noteq> [] \<Longrightarrow> contains sub s = sublist sub s"
proof (induction s)
  case Nil
  then show ?case by (simp add: contains_def)
next
  case (Cons c s)
  then show ?case by (simp add: contains_Cons sublist_Cons_right)
qed

lemma contains_snoc:
  assumes "\<not> contains sep u" and "x \<notin> set sep" and "sep \<noteq> []"
  shows "\<not> contains sep (u @ [x])"
  using assms(1)
proof (induction u)
  case Nil
  from assms(2,3) have "\<not> prefix sep [x]"
    by (cases sep) auto
  then show ?case by (simp add: contains_Cons contains_def assms(3))
next
  case (Cons c u)
  then have np: "\<not> prefix sep (c # u)" and nc: "\<not> contains sep u"
    by (simp_all add: contains_Cons)
  have "\<not> prefix sep ((c # u) @ x # [])"
    using prefix_no_sep [of sep "c # u" x "[]"] np assms(2) by blast
  with Cons.IH [OF nc] show ?case by (simp add: contains_Cons)
qed

lemma split_first_prefix: "sep \<noteq> [] \<Longrightarrow> split_first sep (sep @ t) = Some ([], t)"
  by (cases sep) simp_all

text \<open>\<^verbatim>\<open>split\<close> never returns the empty list.\<close>

lemma py_split_nonempty: "py_split sep s \<noteq> []"
  by (subst py_split.simps) (simp split: option.splits)

section \<open>The constructor and the subscript \<^verbatim>\<open>module.params['accept_hostkey']\<close>\<close>

lemma branch_required_and_default: "required_and_default argument_spec = Some ''branch''"
  by (simp add: argument_spec_def)

text \<open>
  The declaration gives \<^verbatim>\<open>branch\<close> (as \<^verbatim>\<open>remote\<close> and \<^verbatim>\<open>mode\<close>) both \<^verbatim>\<open>required=True\<close> and a
  default, so the constructor fails every run.
\<close>

lemma ansible_module_fails: "ansible_module t = Inl (RequiredAndDefault ''branch'')"
  by (simp add: ansible_module_def branch_required_and_default)

lemma main_fails_in_constructor: "main h t s = (InitFailed (RequiredAndDefault ''branch''), s)"
  by (simp add: main_def ansible_module_fails)


lemma accept_hostkey_not_declared:
  "''accept_hostkey'' \<notin> set (map fst argument_spec)"
  "params_getitem p ''accept_hostkey'' = Inl (KeyError ''accept_hostkey'')"
  by (simp_all add: params_getitem_def argument_spec_def)

text \<open>
  C1, as amended. Every invocation of \<^verbatim>\<open>main\<close> ends in the \<^verbatim>\<open>fail_json\<close> of the constructor,
  in the state it started in: no pipeline step command is built or run, and the subscript
  \<^verbatim>\<open>module.params['accept_hostkey']\<close> is not reached. The key is none of the
  \<^verbatim>\<open>argument_spec\<close>: on \<^verbatim>\<open>module.params\<close> as declared, the rest of \<^verbatim>\<open>main\<close> raises \<^verbatim>\<open>KeyError\<close>
  at the subscript, before any pipeline step command, whenever it has an executable and
  passes the test of the comment.
\<close>

theorem main_stops_before_pipeline:
  "main h t s = (InitFailed (RequiredAndDefault ''branch''), s)
   \<and> (git_path_of h p = Inr g \<and> \<not> (commit p \<and> \<not> truthy_opt (comment p)) \<longrightarrow>
        main_from_params h p s = (Raised (KeyError ''accept_hostkey''), s))"
  by (simp add: main_fails_in_constructor main_from_params_def accept_hostkey_not_declared)

theorem main_stops_before_pipeline_witness:
  "main host_quiet args0 state0 = (InitFailed (RequiredAndDefault ''branch''), state0)
   \<and> git_path_of host_quiet params0 = Inr ''/usr/bin/git''
   \<and> \<not> (commit params0 \<and> \<not> truthy_opt (comment params0))
   \<and> main_from_params host_quiet params0 state0 = (Raised (KeyError ''accept_hostkey''), state0)"
proof -
  have g: "git_path_of host_quiet params0 = Inr ''/usr/bin/git''"
    by (simp add: git_path_of_def host_quiet_def params0_def)
  have c: "\<not> (commit params0 \<and> \<not> truthy_opt (comment params0))"
    by (simp add: params0_def)
  from main_stops_before_pipeline [of host_quiet args0 state0 params0 "''/usr/bin/git''"] g c
  show ?thesis by simp
qed

text \<open>
  C1 as stated fails at every run, here a task that names the working tree and a commit
  message: the run ends in the constructor, and no \<^verbatim>\<open>KeyError\<close> is raised.
\<close>

theorem main_constructor_counterexample:
  "main host_quiet args0 state0 = (InitFailed (RequiredAndDefault ''branch''), state0)
   \<and> fst (main host_quiet args0 state0) \<noteq> Raised (KeyError ''accept_hostkey'')"
  by (simp add: main_def ansible_module_def argument_spec_def)

section \<open>The staged diff\<close>

text \<open>
  Whatever the step before it returned, \<^verbatim>\<open>_get_diff_index\<close> raises at the \<^verbatim>\<open>split\<close> of the
  tuple slice.
\<close>

lemma get_diff_index_raises:
  "fst (get_diff_index lp args s) = Raises (AttributeError ''tuple'' ''split'')"
  by (simp add: get_diff_index_def)

text \<open>
  So with a non-empty \<^verbatim>\<open>add\<close> list no run ends in \<^verbatim>\<open>exit_json\<close>: it fails at \<^verbatim>\<open>git add\<close> or
  at \<^verbatim>\<open>git diff-index\<close>, or it raises in \<^verbatim>\<open>_get_diff_index\<close> (or before the pipeline).
\<close>

lemma run_step_returns:
  "\<exists>rc out err s'. run_step h c lp args s = (Returned rc out err, s')"
  by (simp add: run_step_def split: prod.splits)

lemma staged_pipeline_never_exits:
  assumes "add p \<noteq> []"
  shows "fst (run_commands (commands h p g rp) prev s) \<noteq> ExitJson r"
proof -
  obtain rest where cs: "commands h p g rp =
      (''git_add'', run_step h (add_cmd g rp (add p)) (local_path p))
      # (''git_files_added'', run_step h (diff_index_cmd g rp) (local_path p))
      # (''git_staged_files'', get_diff_index (local_path p)) # rest"
    using assms by (simp add: commands_def)
  obtain rc1 out1 err1 s1 where a:
    "run_step h (add_cmd g rp (add p)) (local_path p) prev s = (Returned rc1 out1 err1, s1)"
    using run_step_returns by blast
  obtain rc2 out2 err2 s2 where d:
    "run_step h (diff_index_cmd g rp) (local_path p) [PInt rc1, PStr out1, PStr err1] s1
       = (Returned rc2 out2 err2, s2)"
    using run_step_returns by blast
  obtain r3 s3 where g3:
    "get_diff_index (local_path p) [PInt rc2, PStr out2, PStr err2] s2 = (r3, s3)"
    by (cases "get_diff_index (local_path p) [PInt rc2, PStr out2, PStr err2] s2")
  have r3: "r3 = Raises (AttributeError ''tuple'' ''split'')"
    using get_diff_index_raises [of "local_path p" "[PInt rc2, PStr out2, PStr err2]" s2]
    by (simp add: g3)
  show ?thesis
    using a d g3 by (cases "rc1 = 0"; cases "rc2 = 0") (simp_all add: cs r3)
qed

lemma staged_run_never_exits:
  assumes "add p \<noteq> []"
  shows "fst (main_body h p g v s) \<noteq> ExitJson r"
  using staged_pipeline_never_exits [OF assms]
  by (simp add: main_body_def split: prod.splits sum.splits)

text \<open>
  C2, at its failing input: \<^verbatim>\<open>add=["."]\<close>, \<^verbatim>\<open>commit\<close> and \<^verbatim>\<open>push\<close> enabled, and a staged diff
  that is empty. \<^verbatim>\<open>main\<close> ends in the constructor; past it, the run raises \<^verbatim>\<open>KeyError\<close> at
  the subscript; from the subscript on (its value being false), the run stages, queries
  the diff and then raises \<^verbatim>\<open>AttributeError\<close> in \<^verbatim>\<open>_get_diff_index\<close>: none of them ends in
  \<^verbatim>\<open>exit_json\<close> with \<^verbatim>\<open>changed=false\<close>.
\<close>

theorem empty_diff_run_raises:
  "proc host_quiet [] (diff_index_cmd ''/usr/bin/git'' ''/repo/.git'') = (0, [], [])
   \<and> fst (main host_quiet args0 state0) = InitFailed (RequiredAndDefault ''branch'')
   \<and> fst (main_from_params host_quiet params0 state0) = Raised (KeyError ''accept_hostkey'')
   \<and> fst (main_body host_quiet params0 ''/usr/bin/git'' (PBool False) state0)
       = Raised (AttributeError ''tuple'' ''split'')
   \<and> map cmd (calls (snd (main_body host_quiet params0 ''/usr/bin/git'' (PBool False) state0)))
       = [''/usr/bin/git --version'', ''/usr/bin/git -C /repo/.git add .'',
          ''/usr/bin/git -C /repo/.git diff-index --cached --name-status HEAD'']"
  by (simp add: main_fails_in_constructor main_from_params_def git_path_of_def
      params_getitem_def run_defs fixture_defs)

text \<open>
  C3, at its scenario: \<^verbatim>\<open>add=["a.txt"]\<close> and the staged diff \<^verbatim>\<open>M<tab>a.txt\<close>. \<^verbatim>\<open>main\<close> ends
  in the constructor; past it, the run raises \<^verbatim>\<open>KeyError\<close> at the subscript; from the
  subscript on, the run raises \<^verbatim>\<open>AttributeError\<close> in \<^verbatim>\<open>_get_diff_index\<close> with \<^verbatim>\<open>changed\<close> still false and \<^verbatim>\<open>files\<close> empty, and neither
  \<^verbatim>\<open>git commit\<close> nor \<^verbatim>\<open>git push\<close> is run.
\<close>

theorem modified_file_run_raises:
  "proc host_modified [] (diff_index_cmd ''/usr/bin/git'' ''/repo/.git'')
       = (0, ''M'' @ [tab] @ ''a.txt'' @ [nl], [])
   \<and> fst (main host_modified args_a_txt state0) = InitFailed (RequiredAndDefault ''branch'')
   \<and> fst (main_from_params host_modified params_a_txt state0)
       = Raised (KeyError ''accept_hostkey'')
   \<and> fst (main_body host_modified params_a_txt ''/usr/bin/git'' (PBool False) state0)
       = Raised (AttributeError ''tuple'' ''split'')
   \<and> result (snd (main_body host_modified params_a_txt ''/usr/bin/git'' (PBool False) state0))
       = Some \<lparr>r_local_path = ''/repo'', r_changed = False, r_files = None\<rparr>
   \<and> map cmd (calls (snd (main_body host_modified params_a_txt ''/usr/bin/git'' (PBool False) state0)))
       = [''/usr/bin/git --version'', ''/usr/bin/git -C /repo/.git add a.txt'',
          ''/usr/bin/git -C /repo/.git diff-index --cached --name-status HEAD'']"
  by (simp add: main_fails_in_constructor main_from_params_def git_path_of_def
      params_getitem_def run_defs fixture_defs)

section \<open>The parser on diff-status input\<close>

text \<open>
  C4, at its failing input: the output \<^verbatim>\<open>A<tab>new.txt\<close>, \<^verbatim>\<open>M<tab>a.txt\<close>, \<^verbatim>\<open>D<tab>gone.txt\<close>
  of \<^verbatim>\<open>git diff-index\<close>, which the loop of \<^verbatim>\<open>main\<close> hands to \<^verbatim>\<open>_get_diff_index\<close> in the triple
  \<^verbatim>\<open>(0, out, '')\<close>. The parser raises \<^verbatim>\<open>AttributeError\<close> at \<^verbatim>\<open>args[:-1].split('\n')\<close> before
  its loop over the lines; no line is put into a bucket, \<^verbatim>\<open>files\<close> stays the empty
  dictionary and \<^verbatim>\<open>changed\<close> false. It does so on every input.
\<close>

theorem diff_status_input_raises:
  "get_diff_index ''/repo''
       [PInt 0,
        PStr (''A'' @ [tab] @ ''new.txt'' @ [nl] @ ''M'' @ [tab] @ ''a.txt'' @ [nl]
                @ ''D'' @ [tab] @ ''gone.txt'' @ [nl]),
        PStr []] state0
     = (Raises (AttributeError ''tuple'' ''split''),
        state0\<lparr>result := Some \<lparr>r_local_path = ''/repo'', r_changed = False, r_files = None\<rparr>\<rparr>)
   \<and> get_diff_index lp args s
     = (Raises (AttributeError ''tuple'' ''split''),
        s\<lparr>result := Some \<lparr>r_local_path = lp, r_changed = False, r_files = None\<rparr>\<rparr>)"
  by (simp add: get_diff_index_def)

section \<open>Repository Locator\<close>

lemma dot_git_no_straddle:
  assumes "prefix ''.git'' (u @ ''.git'')" and "u \<noteq> []"
  shows "prefix ''.git'' u"
proof -
  from assms(2) obtain a u1 where u: "u = a # u1" by (cases u) auto
  show ?thesis
  proof (cases u1)
    case Nil
    with assms(1) u show ?thesis by simp
  next
    case (Cons b u2)
    note u1 = this
    show ?thesis
    proof (cases u2)
      case Nil
      with assms(1) u u1 show ?thesis by simp
    next
      case (Cons c u3)
      note u2 = this
      show ?thesis
      proof (cases u3)
        case Nil
        with assms(1) u u1 u2 show ?thesis by simp
      next
        case (Cons d u4)
        with assms(1) u u1 u2 show ?thesis by simp
      qed
    qed
  qed
qed

lemma split_first_at_end:
  "\<not> contains ''.git'' u \<Longrightarrow> split_first ''.git'' (u @ ''.git'') = Some (u, [])"
proof (induction u)
  case Nil
  show ?case by simp
next
  case (Cons c u)
  then have np: "\<not> prefix ''.git'' (c # u)" and nc: "\<not> contains ''.git'' u"
    by (simp_all add: contains_Cons)
  have "\<not> prefix ''.git'' ((c # u) @ ''.git'')"
    using dot_git_no_straddle [of "c # u"] np by blast
  with Cons.IH [OF nc] show ?case by simp
qed

text \<open>
  For a working tree whose path has no \<^verbatim>\<open>.git\<close> in it, the cut at the first \<^verbatim>\<open>.git\<close> gives
  the directory of the \<^verbatim>\<open>.git\<close> entry.
\<close>

lemma before_first_dot_git:
  assumes "\<not> contains ''.git'' lp"
  shows "before_first ''.git'' (path_join lp ''.git'')
           = (if lp = [] \<or> suffix ''/'' lp then lp else lp @ ''/'')"
proof (cases "lp = [] \<or> suffix ''/'' lp")
  case True
  then have "path_join lp ''.git'' = lp @ ''.git''"
    by (auto simp: path_join_def)
  with True split_first_at_end [OF assms] show ?thesis
    by (simp add: before_first_def)
next
  case False
  then have pj: "path_join lp ''.git'' = (lp @ ''/'') @ ''.git''"
    by (auto simp: path_join_def)
  have "\<not> contains ''.git'' (lp @ ''/'')"
    using contains_snoc [OF assms, of "CHR ''/''"] by simp
  from split_first_at_end [OF this] False show ?thesis
    by (simp only: pj before_first_def) simp
qed

lemma path_join_dir:
  "\<not> isabs t \<Longrightarrow>
   path_join (if lp = [] \<or> suffix ''/'' lp then lp else lp @ ''/'') t = path_join lp t"
  by (auto simp: path_join_def isabs_def)

text \<open>
  There, a relative target is resolved against the working tree, and a target that is not
  a directory is an error.
\<close>

lemma get_repo_path_relative:
  assumes "\<not> contains ''.git'' lp"
      and "isfile h (path_join lp ''.git'')"
      and "read_file h (path_join lp ''.git'') = Inr data"
      and "rstrip data = ''gitdir: '' @ target"
      and "\<not> isabs target"
  shows "get_repo_path h lp =
           (if isdir h (path_join lp target) then Inr (path_join lp target)
            else Inl (ValueError (path_join lp target @ '' is not a directory'')))"
proof -
  have sf: "split_first ''gitdir: '' (rstrip data) = Some ([], target)"
    unfolding assms(4) by (rule split_first_prefix) simp
  have dir: "path_join (before_first ''.git'' (path_join lp ''.git'')) target = path_join lp target"
    by (simp only: before_first_dot_git [OF assms(1)] path_join_dir [OF assms(5)])
  show ?thesis
    by (simp add: get_repo_path_def Let_def assms(2,3,5) sf dir)
qed

text \<open>Text before \<^verbatim>\<open>gitdir: \<close> is an error, for every working tree.\<close>

lemma get_repo_path_prefix_error:
  assumes "isfile h (path_join lp ''.git'')"
      and "read_file h (path_join lp ''.git'') = Inr data"
      and "split_first ''gitdir: '' (rstrip data) = Some (ref_prefix, target)"
      and "ref_prefix \<noteq> []"
  shows "get_repo_path h lp = Inl (ValueError ''.git file has invalid git dir reference format'')"
  by (simp add: get_repo_path_def Let_def assms)

text \<open>
  C5, at its failing input: the working tree \<^verbatim>\<open>/srv/site.git/wt\<close>, whose \<^verbatim>\<open>.git\<close> file reads
  \<^verbatim>\<open>gitdir: ../other/.git\<close>. The directory that holds the \<^verbatim>\<open>.git\<close> entry is the working
  tree, and the target resolved against it, \<^verbatim>\<open>/srv/site.git/wt/../other/.git\<close>, is a
  directory; \<^verbatim>\<open>get_repo_path\<close> cuts the path at its first \<^verbatim>\<open>.git\<close>, resolves the target
  against \<^verbatim>\<open>/srv/site\<close> and fails.
\<close>

theorem gitlink_under_dot_git_path:
  "isfile host_gitlink (path_join ''/srv/site.git/wt'' ''.git'')
   \<and> read_file host_gitlink (path_join ''/srv/site.git/wt'' ''.git'')
       = Inr (''gitdir: ../other/.git'' @ [nl])
   \<and> isdir host_gitlink (path_join ''/srv/site.git/wt'' ''../other/.git'')
   \<and> get_repo_path host_gitlink ''/srv/site.git/wt''
       = Inl (ValueError ''/srv/site/../other/.git is not a directory'')"
  by (simp add: get_repo_path_def path_join_def suffix_to_prefix host_gitlink_def host_quiet_def
      rstrip_def is_space_def nl_def before_first_def isabs_def)

section \<open>The state after the Transport Configurator\<close>

lemma run_step_frame: "keeps_transport (run_step h c lp)"
  by (simp add: keeps_transport_def run_step_def run_command_def transport_of_def
      split: prod.splits)

lemma get_diff_index_frame: "keeps_transport (get_diff_index lp)"
  by (simp add: keeps_transport_def get_diff_index_def transport_of_def)

lemma commands_frame: "\<forall>lc \<in> set (commands h p g rp). keeps_transport (snd lc)"
  by (auto simp: commands_def run_step_frame get_diff_index_frame split: option.splits)
     (simp add: keeps_transport_def)

lemma run_commands_frame:
  "\<forall>lc \<in> set cs. keeps_transport (snd lc) \<Longrightarrow>
   transport_of (snd (run_commands cs prev s)) = transport_of s"
proof (induction cs arbitrary: prev s)
  case Nil
  then show ?case by simp
next
  case (Cons lc cs)
  obtain label command where lc: "lc = (label, command)" by (cases lc)
  obtain r s1 where step: "command prev s = (r, s1)" by (cases "command prev s")
  from Cons.prems lc have "keeps_transport command" by simp
  then have "transport_of (snd (command prev s)) = transport_of s"
    by (simp add: keeps_transport_def)
  then have s1: "transport_of s1 = transport_of s"
    by (simp add: step)
  from Cons.prems have "\<forall>lc \<in> set cs. keeps_transport (snd lc)" by simp
  then have rest: "transport_of (snd (run_commands cs prev2 s1)) = transport_of s1" for prev2
    by (rule Cons.IH)
  show ?case
    by (cases r) (simp_all add: lc step s1 rest)
qed

lemma git_version_frame: "transport_of (snd (git_version h g s)) = transport_of s"
  by (simp add: git_version_def run_command_def transport_of_def split: prod.splits)

lemma block_transport:
  "environ (snd (accept_hostkey_block v so s)) = environ s"
  "wrapper_files (snd (accept_hostkey_block v so s)) = wrapper_files s"
  "cleanup_files (snd (accept_hostkey_block v so s)) = cleanup_files s"
  by (simp_all add: accept_hostkey_block_def split: option.splits)

lemma set_git_ssh_fields:
  "wrapper_files (set_git_ssh wp kf so s) = wrapper_files s"
  "cleanup_files (set_git_ssh wp kf so s) = cleanup_files s"
  "run_command_environ_update (set_git_ssh wp kf so s) = run_command_environ_update s"
  by (simp_all add: set_git_ssh_def Let_def)

lemma set_git_ssh_GIT_SSH:
  "environ (set_git_ssh wp kf so s) ''GIT_SSH'' = Some wp"
  by (simp add: set_git_ssh_def Let_def env_clear_def split: option.splits)


lemma set_git_ssh_GIT_KEY:
  "truthy_opt kf \<Longrightarrow> environ (set_git_ssh wp kf so s) ''GIT_KEY'' = kf"
  by (cases kf) (simp_all add: set_git_ssh_def Let_def env_clear_def split: option.splits)

text \<open>
  Past the Repository Locator and with a wrapper written, \<^verbatim>\<open>main\<close> runs the pipeline on
  the state that \<^verbatim>\<open>set_git_ssh\<close>, \<^verbatim>\<open>add_cleanup_file\<close> and \<^verbatim>\<open>git_version\<close> leave.
\<close>

lemma main_body_pipeline:
  assumes "get_repo_path h (local_path p) = Inr rp" and "wrapper_path h = Inr wp"
      and "accept_hostkey_block v (ssh_opts p) (s\<lparr>result := None\<rparr>) = (so, s1)"
  shows "main_body h p g v s =
           run_commands (commands h p g rp) []
             (snd (git_version h g (add_cleanup_file wp (set_git_ssh wp (key_file p) so
                (s1\<lparr>wrapper_files := wrapper_files s1 @ [wp]\<rparr>)))))"
  by (simp add: main_body_def assms write_ssh_wrapper_def split: prod.splits)

lemma main_body_transport:
  assumes "get_repo_path h (local_path p) = Inr rp" and "wrapper_path h = Inr wp"
      and "accept_hostkey_block v (ssh_opts p) (s\<lparr>result := None\<rparr>) = (so, s1)"
  shows "transport_of (snd (main_body h p g v s)) =
           transport_of (add_cleanup_file wp (set_git_ssh wp (key_file p) so
              (s1\<lparr>wrapper_files := wrapper_files s1 @ [wp]\<rparr>)))"
proof -
  have "transport_of (snd (run_commands (commands h p g rp) [] s3)) = transport_of s3" for s3
    by (rule run_commands_frame) (rule commands_frame)
  then show ?thesis
    by (simp only: main_body_pipeline [OF assms] git_version_frame)
qed


text \<open>
  Past the Repository Locator and with its temporary file created, a run has gone through
  the Transport Configurator, whatever the mode: the wrapper script is written,
  registered for cleanup and installed as \<^verbatim>\<open>GIT_SSH\<close>, and a key file that is given is
  installed as \<^verbatim>\<open>GIT_KEY\<close>.
\<close>

lemma transport_in_every_mode:
  assumes "get_repo_path h (local_path p) = Inr rp" and "wrapper_path h = Inr wp"
  shows "wrapper_files (snd (main_body h p g v s)) = wrapper_files s @ [wp]"
    and "cleanup_files (snd (main_body h p g v s)) = cleanup_files s @ [wp]"
    and "environ (snd (main_body h p g v s)) ''GIT_SSH'' = Some wp"
    and "truthy_opt (key_file p) \<Longrightarrow>
           environ (snd (main_body h p g v s)) ''GIT_KEY'' = key_file p"
proof -
  obtain so s1 where b: "accept_hostkey_block v (ssh_opts p) (s\<lparr>result := None\<rparr>) = (so, s1)"
    by (cases "accept_hostkey_block v (ssh_opts p) (s\<lparr>result := None\<rparr>)")
  have s1: "wrapper_files s1 = wrapper_files s" "cleanup_files s1 = cleanup_files s"
    using block_transport(2,3) [of v "ssh_opts p" "s\<lparr>result := None\<rparr>"] by (simp_all add: b)
  note t = main_body_transport [OF assms b, of g]
  from t show "wrapper_files (snd (main_body h p g v s)) = wrapper_files s @ [wp]"
    by (simp add: transport_of_def add_cleanup_file_def set_git_ssh_fields s1)
  from t show "cleanup_files (snd (main_body h p g v s)) = cleanup_files s @ [wp]"
    by (simp add: transport_of_def add_cleanup_file_def set_git_ssh_fields s1)
  from t show "environ (snd (main_body h p g v s)) ''GIT_SSH'' = Some wp"
    by (simp add: transport_of_def add_cleanup_file_def set_git_ssh_GIT_SSH)
  from t show "environ (snd (main_body h p g v s)) ''GIT_KEY'' = key_file p"
    if "truthy_opt (key_file p)"
    using set_git_ssh_GIT_KEY [OF that] by (simp add: transport_of_def add_cleanup_file_def)
qed


section \<open>Host key acceptance\<close>











section \<open>The environment and directory of the external commands\<close>

text \<open>
  C8, at its failing inputs. With the subscript \<^verbatim>\<open>module.params['accept_hostkey']\<close> false,
  \<^verbatim>\<open>git commit\<close> and \<^verbatim>\<open>git push\<close> (and with \<^verbatim>\<open>add\<close>, \<^verbatim>\<open>git add\<close> and \<^verbatim>\<open>git diff-index\<close>) run
  in \<^verbatim>\<open>local_path\<close> with no locale set: \<^verbatim>\<open>run_command_environ_update\<close> is assigned only
  under a true \<^verbatim>\<open>accept_hostkey\<close> with \<^verbatim>\<open>ssh_opts\<close> absent. With a true value and
  \<^verbatim>\<open>ssh_opts\<close> set, no locale is set either.
\<close>

theorem locale_not_forced:
  "calls (snd (main_body host_quiet params_no_add ''/usr/bin/git'' (PBool False) state0))
     = [\<lparr>cmd = ''/usr/bin/git --version'', cwd = None, env_update = []\<rparr>,
        \<lparr>cmd = commit_cmd ''/usr/bin/git'' ''/repo/.git'' ''msg'', cwd = Some ''/repo'',
         env_update = []\<rparr>,
        \<lparr>cmd = push_cmd ''/usr/bin/git'' ''/repo/.git'' params_no_add, cwd = Some ''/repo'',
         env_update = []\<rparr>]
   \<and> calls (snd (main_body host_quiet params0 ''/usr/bin/git'' (PBool False) state0))
     = [\<lparr>cmd = ''/usr/bin/git --version'', cwd = None, env_update = []\<rparr>,
        \<lparr>cmd = add_cmd ''/usr/bin/git'' ''/repo/.git'' [''.''], cwd = Some ''/repo'',
         env_update = []\<rparr>,
        \<lparr>cmd = diff_index_cmd ''/usr/bin/git'' ''/repo/.git'', cwd = Some ''/repo'',
         env_update = []\<rparr>]
   \<and> map env_update
       (calls (snd (main_body host_quiet (params_no_add\<lparr>ssh_opts := Some ''-o Foo=bar''\<rparr>)
                      ''/usr/bin/git'' (PBool True) state0)))
     = [[], [], []]
   \<and> map env_update
       (calls (snd (main_body host_quiet params_no_add ''/usr/bin/git'' (PBool True) state0)))
     = [c_locale, c_locale, c_locale]"
  by (simp add: run_defs fixture_defs contains_def hostkey_flag_def)

section \<open>A failing step\<close>

lemma run_commands_append:
  "run_prefix pre prev s = Some (prev', s') \<Longrightarrow>
   run_commands (pre @ post) prev s = run_commands post prev' s'"
proof (induction pre arbitrary: prev s)
  case Nil
  then show ?case by simp
next
  case (Cons lc pre)
  obtain label command where lc: "lc = (label, command)" by (cases lc)
  obtain r s1 where step: "command prev s = (r, s1)" by (cases "command prev s")
  from Cons.prems lc step obtain out err where
    r: "r = Returned 0 out err" and
    rest: "run_prefix pre [PInt 0, PStr out, PStr err] s1 = Some (prev', s')"
    by (cases r) (auto split: if_splits)
  from Cons.IH [OF rest] show ?case
    by (simp add: lc step r)
qed

text \<open>
  C9. When the steps before a step have all returned exit code 0 and the step returns
  another code, the loop of \<^verbatim>\<open>main\<close> ends in \<^verbatim>\<open>fail_json\<close> with the message
  \<^verbatim>\<open>Failed to <label>: <out> <err>\<close> of that step, in the state that step left: whatever
  steps follow in the list, none of them runs.
\<close>

theorem failing_step_fails_run:
  assumes "run_prefix pre prev s = Some (prev', s')"
      and "command prev' s' = (Returned rc out err, s'')"
      and "rc \<noteq> 0"
  shows "run_commands (pre @ (label, command) # post) prev s
           = (FailJson (''Failed to '' @ label @ '': '' @ out @ '' '' @ err) None, s'')"
  using run_commands_append [OF assms(1), of "(label, command) # post"] assms(2,3) by simp

theorem failing_step_fails_run_witness:
  "commands host_pushfail params_no_add ''/usr/bin/git'' ''/repo/.git''
     = [(''git_commit'',
         run_step host_pushfail (commit_cmd ''/usr/bin/git'' ''/repo/.git'' ''msg'') ''/repo'')]
       @ (''git_push'',
          run_step host_pushfail (push_cmd ''/usr/bin/git'' ''/repo/.git'' params_no_add) ''/repo'')
       # []
   \<and> run_commands (commands host_pushfail params_no_add ''/usr/bin/git'' ''/repo/.git'') [] state0
     = (FailJson ''Failed to git_push: rejected remote: denied'' None,
        state0\<lparr>calls :=
          [\<lparr>cmd = commit_cmd ''/usr/bin/git'' ''/repo/.git'' ''msg'', cwd = Some ''/repo'',
            env_update = []\<rparr>,
           \<lparr>cmd = push_cmd ''/usr/bin/git'' ''/repo/.git'' params_no_add, cwd = Some ''/repo'',
            env_update = []\<rparr>]\<rparr>)
   \<and> fst (main_body host_pushfail params_no_add ''/usr/bin/git'' (PBool False) state0)
     = FailJson ''Failed to git_push: rejected remote: denied'' None"
proof -
  let ?commit = "run_step host_pushfail (commit_cmd ''/usr/bin/git'' ''/repo/.git'' ''msg'') ''/repo''"
  let ?push = "run_step host_pushfail (push_cmd ''/usr/bin/git'' ''/repo/.git'' params_no_add) ''/repo''"
  let ?c1 = "\<lparr>cmd = commit_cmd ''/usr/bin/git'' ''/repo/.git'' ''msg'', cwd = Some ''/repo'',
              env_update = []\<rparr>"
  let ?c2 = "\<lparr>cmd = push_cmd ''/usr/bin/git'' ''/repo/.git'' params_no_add, cwd = Some ''/repo'',
              env_update = []\<rparr>"
  have cs: "commands host_pushfail params_no_add ''/usr/bin/git'' ''/repo/.git''
              = [(''git_commit'', ?commit)] @ (''git_push'', ?push) # []"
    by (simp add: commands_def params_no_add_def params0_def)
  have h1: "run_prefix [(''git_commit'', ?commit)] [] state0
              = Some ([PInt 0, PStr [], PStr []], state0\<lparr>calls := [?c1]\<rparr>)"
    by (simp add: run_step_def run_command_def host_pushfail_def host_quiet_def state0_def
        commit_cmd_def push_cmd_def params_no_add_def params0_def)
  have h2: "?push [PInt 0, PStr [], PStr []] (state0\<lparr>calls := [?c1]\<rparr>)
              = (Returned 1 ''rejected'' ''remote: denied'', state0\<lparr>calls := [?c1, ?c2]\<rparr>)"
    by (simp add: run_step_def run_command_def host_pushfail_def host_quiet_def state0_def)
  have h3: "(1::int) \<noteq> 0" by simp
  have mb: "fst (main_body host_pushfail params_no_add ''/usr/bin/git'' (PBool False) state0)
              = FailJson ''Failed to git_push: rejected remote: denied'' None"
    by (simp add: run_defs fixture_defs)
  from failing_step_fails_run
         [where command = ?push and label = "''git_push''" and post = "[]", OF h1 h2 h3] cs mb
  show ?thesis by simp
qed

section \<open>The commit message\<close>

lemma backslash_neq_dquote: "backslash \<noteq> dquote"
  by (simp add: dquote_def backslash_def)

lemma read_dquoted_plain:
  "c \<noteq> dquote \<Longrightarrow> c \<noteq> backslash \<Longrightarrow> cs \<noteq> [] \<Longrightarrow>
   read_dquoted (c # cs) =
     (case read_dquoted cs of None \<Rightarrow> None | Some (w, t) \<Rightarrow> Some (c # w, t))"
  by (cases cs) auto

lemma read_dquoted_escaped_quote:
  "read_dquoted (backslash # dquote # r) =
     (case read_dquoted r of None \<Rightarrow> None | Some (w, t) \<Rightarrow> Some (dquote # w, t))"
  by (simp add: backslash_neq_dquote)

lemma read_dquoted_close: "read_dquoted (dquote # r) = Some ([], r)"
  by (cases r) auto

text \<open>
  By this reader, the escaped form of a message without a backslash, between double
  quotes, is read back as the message, with the text after the closing quote untouched.
\<close>

lemma replace_dquote_round_trip:
  "backslash \<notin> set m \<Longrightarrow> read_dquoted (replace_dquote m @ dquote # rest) = Some (m, rest)"
proof (induction m)
  case Nil
  show ?case by (simp add: read_dquoted_close)
next
  case (Cons c m)
  then have IH: "read_dquoted (replace_dquote m @ dquote # rest) = Some (m, rest)"
    and c: "c \<noteq> backslash"
    by auto
  show ?case
  proof (cases "c = dquote")
    case True
    then show ?thesis
      by (simp add: read_dquoted_escaped_quote IH del: read_dquoted.simps)
  next
    case False
    with c IH show ?thesis
      by (simp add: read_dquoted_plain del: read_dquoted.simps)
  qed
qed

text \<open>
  C10, at its failing input: the message of the two characters backslash and double quote.
  \<^verbatim>\<open>replace\<close> puts a backslash before the quote and leaves the backslash of the message
  alone, so the command holds two backslashes and a quote between its quotes; read back,
  the two backslashes are one backslash and the quote of the message closes the string.
\<close>

theorem backslash_quote_breaks_round_trip:
  "commit_cmd ''git'' ''/repo/.git'' [backslash, dquote]
     = ''git -C /repo/.git commit -m '' @ [dquote] @ [backslash, backslash, dquote] @ [dquote]
   \<and> read_dquoted ([backslash, backslash, dquote] @ [dquote]) = Some ([backslash], [dquote])
   \<and> read_dquoted (replace_dquote [backslash, dquote] @ [dquote]) \<noteq> Some ([backslash, dquote], [])"
  by (simp add: commit_cmd_def dquote_def backslash_def)

end
